theory Spec2Isabelle
  imports Complex_Main "HOL-Library.Char_ord" "HOL-Library.List_Lexorder"
begin

section \<open>Python values, errors and the store\<close>

text \<open>
  The values \<^verbatim>\<open>db.py\<close> handles: attribute values of a record object, arguments bound
  to the placeholders of a statement, column values of a fetched row, and the tuples
  \<^verbatim>\<open>ConfigCache\<close> uses as dictionary keys.
\<close>

datatype pyval = PNone | PInt int | PStr string | PTuple "pyval list"

text \<open>
  Every exception the modelled code can end in is a value. The first four are Python's
  own; the last four are what the connection raises: the relation of a statement does
  not exist, the arguments are fewer or more than the placeholders, an argument does
  not fit the type of its placeholder, a primary key is inserted twice.
\<close>

datatype error =
    NotImplementedError
  | TypeError
  | AttributeError
  | KeyError
  | UndefinedTable
  | WrongArgumentCount
  | DataError
  | UniqueViolation

text \<open>
  A fetched row (an \<^verbatim>\<open>asyncpg.Record\<close>) lists its columns in order. The store behind
  \<^verbatim>\<open>Pool\<close> holds the rows of every table by name, in storage order, and apart from
  them the reserved table \<^verbatim>\<open>versions (table_name text PRIMARY KEY, version_num int NOT NULL)\<close>,
  which is \<open>None\<close> until it is created.
\<close>

type_synonym row = "(string \<times> pyval) list"

record database =
  relations :: "(string \<times> row list) list"
  versions_table :: "(string \<times> int) list option"

text \<open>
  A subclass of \<^verbatim>\<open>DatabaseTable\<close>: its class attributes \<^verbatim>\<open>__tablename__\<close>,
  \<^verbatim>\<open>__uniques__\<close> and \<^verbatim>\<open>__versions__\<close>, and the two class methods a subclass
  overrides. \<^verbatim>\<open>__versions__\<close> is a dictionary from version number to migration step,
  as the one \<^verbatim>\<open>__versions__ = {}\<close> of \<^verbatim>\<open>db.py\<close> is; a list, whose negative indices
  count from its end, is not modelled. \<^verbatim>\<open>DatabaseTable\<close> gives the attribute no
  default, so it is \<open>None\<close> for a subclass that does not define it. A hook either
  raises or returns the store it leaves behind.
\<close>

type_synonym hook = "database \<Rightarrow> error + database"

record table_class =
  tablename :: string
  uniques :: "string list"
  versions :: "(int \<times> hook) list option"
  initial_create :: hook
  initial_migrate :: hook

text \<open>The bodies \<^verbatim>\<open>DatabaseTable\<close> itself gives the two hooks (lines 47-55).\<close>

definition DatabaseTable_initial_create :: hook where
  "DatabaseTable_initial_create db = Inl NotImplementedError"

definition DatabaseTable_initial_migrate :: hook where
  "DatabaseTable_initial_migrate db = Inr db"

subsection \<open>What the statements of the query methods mean\<close>

text \<open>
  A placeholder \<^verbatim>\<open>$n\<close> stands for the argument bound to it, a value; it never names a
  column. In \<^verbatim>\<open>$1 = $2\<close> neither side has a type of its own, so both placeholders are
  text: the driver binds a \<^verbatim>\<open>str\<close> or \<^verbatim>\<open>None\<close> (NULL) there and raises
  \<^verbatim>\<open>DataError\<close> for any other argument, and the store refuses, with an error of that
  class, a string that holds a NUL byte. The comparison holds when both arguments are
  the same string; with a NULL side it holds for no row.
\<close>

definition text_param :: "pyval \<Rightarrow> bool" where
  "text_param v =
     (case v of PNone \<Rightarrow> True | PStr s \<Rightarrow> CHR 0x00 \<notin> set s | PInt n \<Rightarrow> False | PTuple vs \<Rightarrow> False)"

definition params_equal :: "pyval \<Rightarrow> pyval \<Rightarrow> bool" where
  "params_equal a b = (case a of PStr s \<Rightarrow> b = PStr s | PNone \<Rightarrow> False | PInt n \<Rightarrow> False | PTuple vs \<Rightarrow> False)"

text \<open>
  The WHERE clauses \<^verbatim>\<open>db.py\<close> writes are conjunctions of \<^verbatim>\<open>$i = $j\<close>; \<open>(i, j)\<close> is
  one conjunct, counted from 1 as the placeholders are. \<open>bound\<close> says that the
  arguments are as many as the placeholders, \<open>holds\<close> whether the clause is true,
  which no row can influence.
\<close>

type_synonym condition = "nat \<times> nat"

definition placeholders :: "condition list \<Rightarrow> nat list" where
  "placeholders conds = concat (map (\<lambda>(i, j). [i, j]) conds)"

definition bound :: "condition list \<Rightarrow> pyval list \<Rightarrow> bool" where
  "bound conds args = (length args = foldr max (placeholders conds) 0)"

definition text_args :: "pyval list \<Rightarrow> bool" where
  "text_args args = list_all text_param args"

definition holds :: "condition list \<Rightarrow> pyval list \<Rightarrow> bool" where
  "holds conds args = list_all (\<lambda>(i, j). params_equal (args ! (i - 1)) (args ! (j - 1))) conds"

text \<open>\<^verbatim>\<open>conn.fetch("SELECT * FROM t WHERE ...", *args)\<close> and \<^verbatim>\<open>conn.fetch("SELECT * FROM t;")\<close>.\<close>

definition fetch_where :: "database \<Rightarrow> string \<Rightarrow> condition list \<Rightarrow> pyval list \<Rightarrow> error + row list" where
  "fetch_where db t conds args =
     (case map_of (relations db) t of
        None \<Rightarrow> Inl UndefinedTable
      | Some rows \<Rightarrow>
          if \<not> bound conds args then Inl WrongArgumentCount
          else if \<not> text_args args then Inl DataError
          else Inr (filter (\<lambda>r. holds conds args) rows))"

text \<open>\<^verbatim>\<open>conn.execute("DELETE FROM t WHERE ...;", *args)\<close>: the rows the clause holds for go.\<close>

definition execute_delete :: "database \<Rightarrow> string \<Rightarrow> condition list \<Rightarrow> pyval list \<Rightarrow> error + database" where
  "execute_delete db t conds args =
     (case map_of (relations db) t of
        None \<Rightarrow> Inl UndefinedTable
      | Some rows \<Rightarrow>
          if \<not> bound conds args then Inl WrongArgumentCount
          else if \<not> text_args args then Inl DataError
          else Inr (db\<lparr>relations :=
                 map (\<lambda>(n, rs). if n = t then (n, filter (\<lambda>r. \<not> holds conds args) rs) else (n, rs))
                   (relations db)\<rparr>))"

section \<open>DatabaseTable: the query methods\<close>

text \<open>
  \<^verbatim>\<open>get_by_attribute(cls, obj_id, column_name)\<close> (lines 98-104) fetches
  \<^verbatim>\<open>SELECT * FROM {cls.__tablename__} WHERE $1 = $2\<close> with the arguments
  \<^verbatim>\<open>column_name, obj_id\<close>.
\<close>

definition get_by_attribute :: "table_class \<Rightarrow> pyval \<Rightarrow> pyval \<Rightarrow> database \<Rightarrow> error + row list" where
  "get_by_attribute cls obj_id column_name db =
     fetch_where db (tablename cls) [(1, 2)] [column_name, obj_id]"






text \<open>\<^verbatim>\<open>get_all\<close> (lines 132-136) fetches \<^verbatim>\<open>SELECT * FROM {cls.__tablename__};\<close>.\<close>

definition get_all :: "table_class \<Rightarrow> database \<Rightarrow> error + row list" where
  "get_all cls db = fetch_where db (tablename cls) [] []"

text \<open>
  \<^verbatim>\<open>delete(cls, data_tuple_list)\<close> (lines 138-150): the statement starts as
  \<^verbatim>\<open>DELETE FROM {cls.__tablename__} WHERE $1 = $2\<close>, gets
  \<^verbatim>\<open>AND ${2 * i + 1} = ${2 * i + 2}\<close> for every \<open>i\<close> of
  \<^verbatim>\<open>range(1, len(data_tuple_list))\<close>, and is executed with the tuples flattened.
\<close>

definition delete_conditions :: "(pyval \<times> pyval) list \<Rightarrow> condition list" where
  "delete_conditions data_tuple_list =
     (1, 2) # map (\<lambda>i. (2 * i + 1, 2 * i + 2)) [1 ..< length data_tuple_list]"

definition delete_params :: "(pyval \<times> pyval) list \<Rightarrow> pyval list" where
  "delete_params data_tuple_list = concat (map (\<lambda>(data_column, data). [data_column, data]) data_tuple_list)"

definition delete :: "table_class \<Rightarrow> (pyval \<times> pyval) list \<Rightarrow> database \<Rightarrow> error + database" where
  "delete cls data_tuple_list db =
     execute_delete db (tablename cls) (delete_conditions data_tuple_list) (delete_params data_tuple_list)"

section \<open>DatabaseTable.update_or_add: the statement it builds\<close>

text \<open>
  Python's \<^verbatim>\<open>str(n)\<close> for a number that is not negative, \<^verbatim>\<open>sep.join(xs)\<close>,
  \<^verbatim>\<open>repr(s)\<close> of a string and \<^verbatim>\<open>str(xs)\<close> of a list of strings, which is what an
  f-string puts in place of \<^verbatim>\<open>{self.__uniques__}\<close>. \<^verbatim>\<open>repr\<close> quotes with \<^verbatim>\<open>'\<close>
  unless the string holds a \<^verbatim>\<open>'\<close> and no \<^verbatim>\<open>"\<close>, and escapes the quote, the
  backslash and the control characters. The strings modelled are ASCII and printable
  text beyond it: bytes from 0x80 on stay, as the UTF-8 of a printable character does;
  a character beyond ASCII that is not printable, which Python escapes, is not
  modelled.
\<close>

fun str_nat :: "nat \<Rightarrow> string" where
  "str_nat n =
     (if n < 10 then [''0123456789'' ! n]
      else str_nat (n div 10) @ [''0123456789'' ! (n mod 10)])"

declare str_nat.simps [simp del]

definition join :: "string \<Rightarrow> string list \<Rightarrow> string" where
  "join sep xs = (case xs of [] \<Rightarrow> [] | y # ys \<Rightarrow> y @ concat (map (\<lambda>x. sep @ x) ys))"

definition hex2 :: "nat \<Rightarrow> string" where
  "hex2 n = [''0123456789abcdef'' ! ((n div 16) mod 16), ''0123456789abcdef'' ! (n mod 16)]"

definition repr_char :: "char \<Rightarrow> char \<Rightarrow> string" where
  "repr_char quote ch =
     (if ch = quote \<or> ch = CHR 0x5C then [CHR 0x5C, ch]
      else if ch = CHR 0x09 then [CHR 0x5C, CHR ''t'']
      else if ch = CHR 0x0A then [CHR 0x5C, CHR ''n'']
      else if ch = CHR 0x0D then [CHR 0x5C, CHR ''r'']
      else if of_char ch < (32 :: nat) \<or> of_char ch = (127 :: nat)
        then [CHR 0x5C, CHR ''x''] @ hex2 (of_char ch)
      else [ch])"

definition repr_str :: "string \<Rightarrow> string" where
  "repr_str s =
     (let quote = (if CHR 0x27 \<in> set s \<and> CHR 0x22 \<notin> set s then CHR 0x22 else CHR 0x27)
      in [quote] @ concat (map (repr_char quote) s) @ [quote])"

definition str_list :: "string list \<Rightarrow> string" where
  "str_list xs = ''['' @ join '', '' (map repr_str xs) @ '']''"

text \<open>
  \<^verbatim>\<open>update_or_add(self)\<close> (lines 57-84). \<open>dict\<close> is \<^verbatim>\<open>self.__dict__\<close> in insertion
  order. The first loop keeps the attributes that are not \<^verbatim>\<open>None\<close>.
\<close>

definition update_or_add_keys :: "(string \<times> pyval) list \<Rightarrow> string list" where
  "update_or_add_keys dict = map fst (filter (\<lambda>(var, value). value \<noteq> PNone) dict)"

definition update_or_add_values :: "(string \<times> pyval) list \<Rightarrow> pyval list" where
  "update_or_add_values dict = map snd (filter (\<lambda>(var, value). value \<noteq> PNone) dict)"

text \<open>\<^verbatim>\<open>keys.index(key)\<close>: the first position of \<open>key\<close>, which is in the list.\<close>

fun index :: "'a list \<Rightarrow> 'a \<Rightarrow> nat" where
  "index [] x = 0"
| "index (y # ys) x = (if y = x then 0 else Suc (index ys x))"

text \<open>
  The second loop: a key of \<^verbatim>\<open>__uniques__\<close> adds nothing; any other key adds
  \<^verbatim>\<open>{key} = EXCLUDED.{key}\<close> and then \<^verbatim>\<open>" ;"\<close> when it is the last of \<^verbatim>\<open>keys\<close>,
  \<^verbatim>\<open>", \n"\<close> otherwise.
\<close>

definition update_or_add_updates :: "string list \<Rightarrow> string list \<Rightarrow> string" where
  "update_or_add_updates uniqs keys =
     concat (map (\<lambda>key.
        if key \<in> set uniqs then []
        else key @ '' = EXCLUDED.'' @ key @
          (if int (index keys key) = int (length keys) - 1 then '' ;'' else '', '' @ [CHR 0x0A]))
      keys)"

text \<open>The f-string of lines 78-83; every line of it starts with twelve blanks.\<close>

definition update_or_add_statement :: "table_class \<Rightarrow> (string \<times> pyval) list \<Rightarrow> string" where
  "update_or_add_statement cls dict =
     (let keys = update_or_add_keys dict;
          vals = update_or_add_values dict;
          updates = update_or_add_updates (uniques cls) keys
      in [CHR 0x0A] @ ''            INSERT INTO '' @ tablename cls @ '' ('' @ join '', '' keys @ '')'' @
         [CHR 0x0A] @ ''            VALUES('' @
            join '','' (map (\<lambda>i. ''$'' @ str_nat (i + 1)) [0 ..< length vals]) @ '') '' @
         [CHR 0x0A] @ ''            ON CONFLICT ('' @ str_list (uniques cls) @ '') DO UPDATE'' @
         [CHR 0x0A] @ ''            SET '' @ updates @
         [CHR 0x0A] @ ''            '')"

text \<open>What \<^verbatim>\<open>update_or_add\<close> hands to \<^verbatim>\<open>conn.execute\<close>: the statement and its arguments.\<close>

definition update_or_add :: "table_class \<Rightarrow> (string \<times> pyval) list \<Rightarrow> string \<times> pyval list" where
  "update_or_add cls dict = (update_or_add_statement cls dict, update_or_add_values dict)"

section \<open>db_migrate\<close>

text \<open>
  \<^verbatim>\<open>CREATE TABLE IF NOT EXISTS versions (...)\<close> (lines 16-20), the look-up of a table
  name in \<^verbatim>\<open>information_schema.tables\<close> (lines 22-26) and
  \<^verbatim>\<open>SELECT version_num FROM versions WHERE table_name = $1\<close> with \<^verbatim>\<open>fetchrow\<close> (line 28),
  whose value is \<^verbatim>\<open>None\<close> when no row matches. The look-up is modelled for a
  registered table whose name is its own: not \<^verbatim>\<open>versions\<close>, and not the name of a
  table or view of the catalog or of another schema (such as \<^verbatim>\<open>triggers\<close>), which
  \<^verbatim>\<open>information_schema.tables\<close> lists though the class never created it.
\<close>

definition create_versions_table :: "database \<Rightarrow> database" where
  "create_versions_table db =
     (case versions_table db of None \<Rightarrow> db\<lparr>versions_table := Some []\<rparr> | Some rows \<Rightarrow> db)"

definition table_exists :: "database \<Rightarrow> string \<Rightarrow> bool" where
  "table_exists db t = (case map_of (relations db) t of None \<Rightarrow> False | Some rows \<Rightarrow> True)"

definition fetch_version :: "database \<Rightarrow> string \<Rightarrow> error + int option" where
  "fetch_version db t =
     (case versions_table db of None \<Rightarrow> Inl UndefinedTable | Some rows \<Rightarrow> Inr (map_of rows t))"

text \<open>
  \<^verbatim>\<open>range(a, b)\<close>, and the loop of lines 34-36 over it: \<^verbatim>\<open>cls.__versions__[i]()\<close>.
  The call is not awaited; a step is taken to be a plain function, which the call runs.
\<close>

definition py_range :: "int \<Rightarrow> int \<Rightarrow> int list" where
  "py_range a b = [a .. b - 1]"

fun run_versions :: "(int \<times> hook) list \<Rightarrow> int list \<Rightarrow> hook" where
  "run_versions vs [] db = Inr db"
| "run_versions vs (i # rest) db =
     (case map_of vs i of
        None \<Rightarrow> Inl KeyError
      | Some step \<Rightarrow> (case step db of Inl e \<Rightarrow> Inl e | Inr db' \<Rightarrow> run_versions vs rest db'))"

text \<open>The body of the loop over the subclasses (lines 22-38), for one class.\<close>

definition migrate :: "table_class \<Rightarrow> hook" where
  "migrate cls db =
     (if table_exists db (tablename cls) then
        (case fetch_version db (tablename cls) of
           Inl e \<Rightarrow> Inl e
         | Inr None \<Rightarrow> initial_migrate cls db
         | Inr (Some version_num) \<Rightarrow>
             (case versions cls of
                None \<Rightarrow> Inl AttributeError
              | Some steps \<Rightarrow>
                  if version_num < int (length steps)
                  then run_versions steps (py_range (version_num + 1) (int (length steps) - 2)) db
                  else Inr db))
      else initial_create cls db)"

fun migrate_all :: "table_class list \<Rightarrow> hook" where
  "migrate_all [] db = Inr db"
| "migrate_all (cls # rest) db =
     (case migrate cls db of Inl e \<Rightarrow> Inl e | Inr db' \<Rightarrow> migrate_all rest db')"

text \<open>\<^verbatim>\<open>db_migrate()\<close> (lines 14-38); \<open>subclasses\<close> is \<^verbatim>\<open>DatabaseTable.__subclasses__()\<close>.\<close>

definition db_migrate :: "table_class list \<Rightarrow> hook" where
  "db_migrate subclasses db = migrate_all subclasses (create_versions_table db)"

text \<open>
  \<^verbatim>\<open>set_initial_version(cls)\<close> (lines 189-192) is a class method of \<^verbatim>\<open>ConfigCache\<close>:
  it reads \<^verbatim>\<open>cls.__tablename__\<close>, an attribute \<^verbatim>\<open>ConfigCache\<close> does not define
  (\<open>None\<close> here; \<open>Some t\<close> for a class that has one), and executes
  \<^verbatim>\<open>INSERT INTO versions (table_name, version_num) VALUES ($1,$2)\<close> with that name and 0.
  Nothing in \<^verbatim>\<open>db.py\<close> calls it.
\<close>

definition set_initial_version :: "string option \<Rightarrow> hook" where
  "set_initial_version tablename_attribute db =
     (case tablename_attribute of
        None \<Rightarrow> Inl AttributeError
      | Some t \<Rightarrow>
          (case versions_table db of
             None \<Rightarrow> Inl UndefinedTable
           | Some rows \<Rightarrow>
               (case map_of rows t of
                  Some v \<Rightarrow> Inl UniqueViolation
                | None \<Rightarrow> Inr (db\<lparr>versions_table := Some (rows @ [(t, 0)])\<rparr>))))"

section \<open>ConfigCache\<close>

text \<open>
  What \<^verbatim>\<open>self.cache\<close> holds under a key once a query has finished: \<^verbatim>\<open>None\<close> or one
  row from \<^verbatim>\<open>query_one\<close>, a list of rows from \<^verbatim>\<open>query_all\<close>. A key that is not in the
  dictionary is \<open>None\<close> of the map.
\<close>

datatype cached = CachedNone | CachedRecord row | CachedList "row list"

record config_cache =
  cache :: "pyval \<rightharpoonup> cached"
  table :: table_class

text \<open>
  \<^verbatim>\<open>_hash_dict(dic)\<close> (lines 159-163): \<^verbatim>\<open>tuple((k, dic[k]) for k in sorted(dic))\<close>.
  \<open>dic\<close> lists the items of the dictionary in insertion order; its keys are the names
  of keyword arguments, compared as Python compares strings.
\<close>

definition hash_dict :: "(string \<times> pyval) list \<Rightarrow> pyval" where
  "hash_dict dic =
     PTuple (map (\<lambda>k. PTuple [PStr k, (case map_of dic k of Some v \<Rightarrow> v | None \<Rightarrow> PNone)])
               (sort (map fst dic)))"

text \<open>
  \<^verbatim>\<open>query_one(self, *args, obj_id, column_name)\<close> (lines 165-174). The \<^verbatim>\<open>return\<close> of
  line 174 is inside the \<^verbatim>\<open>if\<close>: with the key in the cache the method ends without
  one. The result is the returned value and the cache object as the call leaves it.
\<close>

definition query_one :: "config_cache \<Rightarrow> pyval list \<Rightarrow> pyval \<Rightarrow> pyval \<Rightarrow> database \<Rightarrow> error + (row option \<times> config_cache)" where
  "query_one self args obj_id column_name db =
     (let query_hash = PTuple args in
      case cache self query_hash of
        None \<Rightarrow>
          (case get_by_attribute (table self) obj_id column_name db of
             Inl e \<Rightarrow> Inl e
           | Inr [] \<Rightarrow> Inr (None, self\<lparr>cache := (cache self)(query_hash \<mapsto> CachedNone)\<rparr>)
           | Inr (r # rs) \<Rightarrow> Inr (Some r, self\<lparr>cache := (cache self)(query_hash \<mapsto> CachedRecord r)\<rparr>))
      | Some c \<Rightarrow> Inr (None, self))"

text \<open>
  A call of \<^verbatim>\<open>query_one\<close> with keyword arguments: \<^verbatim>\<open>obj_id\<close> and \<^verbatim>\<open>column_name\<close> are
  keyword-only and required, and the signature takes no other keyword.
\<close>

definition call_query_one :: "config_cache \<Rightarrow> pyval list \<Rightarrow> (string \<times> pyval) list \<Rightarrow> database \<Rightarrow> error + (row option \<times> config_cache)" where
  "call_query_one self args kwargs db =
     (case (map_of kwargs ''obj_id'', map_of kwargs ''column_name'') of
        (Some obj_id, Some column_name) \<Rightarrow>
          if list_all (\<lambda>(k, v). k = ''obj_id'' \<or> k = ''column_name'') kwargs
          then query_one self args obj_id column_name db
          else Inl TypeError
      | (Some obj_id, None) \<Rightarrow> Inl TypeError
      | (None, c) \<Rightarrow> Inl TypeError)"

text \<open>\<^verbatim>\<open>query_all(self, *args)\<close> (lines 176-181) returns whatever the key holds.\<close>

definition query_all :: "config_cache \<Rightarrow> pyval list \<Rightarrow> database \<Rightarrow> error + (cached \<times> config_cache)" where
  "query_all self args db =
     (let query_hash = PTuple args in
      case cache self query_hash of
        None \<Rightarrow>
          (case get_all (table self) db of
             Inl e \<Rightarrow> Inl e
           | Inr rows \<Rightarrow> Inr (CachedList rows, self\<lparr>cache := (cache self)(query_hash \<mapsto> CachedList rows)\<rparr>))
      | Some c \<Rightarrow> Inr (c, self))"

text \<open>\<^verbatim>\<open>invalidate_entry(self, **kwargs)\<close> (lines 183-187).\<close>

definition invalidate_entry :: "config_cache \<Rightarrow> (string \<times> pyval) list \<Rightarrow> config_cache" where
  "invalidate_entry self kwargs =
     (let query_hash = hash_dict kwargs in
      case cache self query_hash of
        Some c \<Rightarrow> self\<lparr>cache := (cache self)(query_hash := None)\<rparr>
      | None \<Rightarrow> self)"

section \<open>The bot: global check and error handler\<close>

text \<open>
  The classes of the errors the command framework hands to \<^verbatim>\<open>on_command_error\<close>:
  those of \<^verbatim>\<open>discord.ext.commands\<close> that \<^verbatim>\<open>bot.py\<close> names, their bases, and
  \<^verbatim>\<open>InvalidContext\<close>, which \<^verbatim>\<open>bot.py\<close> derives from \<^verbatim>\<open>CheckFailure\<close> (lines 27-31).
  \<open>mro\<close> lists a class with its bases, so \<^verbatim>\<open>isinstance(err, c)\<close> is membership of
  \<open>c\<close> in the list of the class of \<open>err\<close>.
\<close>

datatype exception =
    CommandError
  | UserInputError
  | MissingRequiredArgument
  | BadArgument
  | CommandNotFound
  | CheckFailure
  | NoPrivateMessage
  | NotOwner
  | MissingPermissions
  | BotMissingPermissions
  | CommandOnCooldown
  | CommandInvokeError
  | InvalidContext

fun mro :: "exception \<Rightarrow> exception list" where
  "mro CommandError = [CommandError]"
| "mro UserInputError = [UserInputError, CommandError]"
| "mro MissingRequiredArgument = [MissingRequiredArgument, UserInputError, CommandError]"
| "mro BadArgument = [BadArgument, UserInputError, CommandError]"
| "mro CommandNotFound = [CommandNotFound, CommandError]"
| "mro CheckFailure = [CheckFailure, CommandError]"
| "mro NoPrivateMessage = [NoPrivateMessage, CheckFailure, CommandError]"
| "mro NotOwner = [NotOwner, CheckFailure, CommandError]"
| "mro MissingPermissions = [MissingPermissions, CheckFailure, CommandError]"
| "mro BotMissingPermissions = [BotMissingPermissions, CheckFailure, CommandError]"
| "mro CommandOnCooldown = [CommandOnCooldown, CommandError]"
| "mro CommandInvokeError = [CommandInvokeError, CommandError]"
| "mro InvalidContext = [InvalidContext, CheckFailure, CommandError]"

definition isinstance :: "exception \<Rightarrow> exception \<Rightarrow> bool" where
  "isinstance err c = (c \<in> set (mro err))"

text \<open>
  What the model keeps of the invocation context is whether the author of the message
  is a bot account (\<^verbatim>\<open>ctx.author.bot\<close>).
\<close>

record dozer_context =
  author_bot :: bool

text \<open>
  \<^verbatim>\<open>global_checks(self, ctx)\<close> (lines 108-114). \<open>retry_after\<close> is what
  \<^verbatim>\<open>self._global_cooldown.update_rate_limit()\<close> returns when the check gets that far:
  \<^verbatim>\<open>None\<close> or a number of seconds, which is true in Python unless it is 0.
\<close>

definition global_checks :: "dozer_context \<Rightarrow> real option \<Rightarrow> exception + bool" where
  "global_checks ctx retry_after =
     (if author_bot ctx then Inl InvalidContext
      else if (case retry_after of None \<Rightarrow> False | Some t \<Rightarrow> t \<noteq> 0) then Inl InvalidContext
      else Inr True)"

text \<open>
  \<^verbatim>\<open>on_command_error(self, ctx, err)\<close> (lines 68-96): one constructor for each
  \<^verbatim>\<open>ctx.send\<close> of the chain. The result lists the messages sent, and the error the
  handler itself ends in, if any: the last branch formats its log line with \<^verbatim>\<open>%\<close> and
  a single argument for several \<^verbatim>\<open>%d\<close>, which raises \<^verbatim>\<open>TypeError\<close>.
\<close>

datatype reply =
    NoPrivateMessageReply
  | UserInputReply
  | NotOwnerReply
  | MissingPermissionsReply
  | BotMissingPermissionsReply
  | CommandOnCooldownReply
  | TracebackReply

definition on_command_error :: "dozer_context \<Rightarrow> exception \<Rightarrow> reply list \<times> error option" where
  "on_command_error ctx err =
     (if isinstance err NoPrivateMessage then ([NoPrivateMessageReply], None)
      else if isinstance err UserInputError then ([UserInputReply], None)
      else if isinstance err NotOwner then ([NotOwnerReply], None)
      else if isinstance err MissingPermissions then ([MissingPermissionsReply], None)
      else if isinstance err BotMissingPermissions then ([BotMissingPermissionsReply], None)
      else if isinstance err CommandOnCooldown then ([CommandOnCooldownReply], None)
      else if isinstance err CommandNotFound \<or> isinstance err InvalidContext then ([], None)
      else ([TracebackReply], Some TypeError))"

text \<open>
  How the framework invokes a command (\<^verbatim>\<open>Bot.invoke\<close> of \<^verbatim>\<open>discord.ext.commands\<close>):
  without a command of the invoked name it dispatches \<^verbatim>\<open>CommandNotFound\<close> to the
  handler; otherwise it runs the global check registered in line 47, dispatches the
  error the check raises (\<^verbatim>\<open>CheckFailure\<close> when it returns false), and goes on
  to the command (\<open>CommandRun\<close>: its own checks, its arguments, its callback) only
  when the check returned true. The commands are enabled ones, as every command is
  unless it is registered with \<^verbatim>\<open>enabled=False\<close>, which none of the sources is.
\<close>

datatype outcome = CommandRun | Handled "reply list \<times> error option"

definition invoke :: "dozer_context \<Rightarrow> bool \<Rightarrow> real option \<Rightarrow> outcome" where
  "invoke ctx command_found retry_after =
     (if \<not> command_found then Handled (on_command_error ctx CommandNotFound)
      else case global_checks ctx retry_after of
             Inl err \<Rightarrow> Handled (on_command_error ctx err)
           | Inr ok \<Rightarrow> if ok then CommandRun else Handled (on_command_error ctx CheckFailure))"

text \<open>
  The table of the specification's scenario, \<^verbatim>\<open>afk_status(user_id PK, reason)\<close>, as a
  subclass that overrides \<^verbatim>\<open>initial_create\<close> to create its empty table and keeps
  \<^verbatim>\<open>initial_migrate\<close> as inherited.
\<close>

definition create_table :: "string \<Rightarrow> hook" where
  "create_table t db = Inr (db\<lparr>relations := relations db @ [(t, [])]\<rparr>)"

definition AFKStatus :: table_class where
  "AFKStatus =
     \<lparr>tablename = ''afk_status'', uniques = [''user_id''], versions = Some [],
      initial_create = create_table ''afk_status'',
      initial_migrate = DatabaseTable_initial_migrate\<rparr>"

text \<open>
  A store in which \<^verbatim>\<open>afk_status\<close> holds two rows: user 7 with the reason
  \<^verbatim>\<open>lunch\<close> and user 8 whose reason is the word \<^verbatim>\<open>reason\<close>.
\<close>

definition afk_rows :: "row list" where
  "afk_rows =
     [[(''user_id'', PInt 7), (''reason'', PStr ''lunch'')],
      [(''user_id'', PInt 8), (''reason'', PStr ''reason'')]]"

definition afk_db :: database where
  "afk_db = \<lparr>relations = [(''afk_status'', afk_rows)], versions_table = Some []\<rparr>"

section \<open>Properties of the query methods\<close>

text \<open>
  The column name reaches the store as an argument, so the fetch returns every row of
  the table or none of them.
\<close>

lemma get_by_attribute_rows:
  "map_of (relations db) (tablename cls) = Some rows \<Longrightarrow>
   CHR 0x00 \<notin> set v \<Longrightarrow> CHR 0x00 \<notin> set c \<Longrightarrow>
   get_by_attribute cls (PStr v) (PStr c) db = Inr (if c = v then rows else [])"
  by (simp add: get_by_attribute_def fetch_where_def bound_def placeholders_def
      text_args_def text_param_def holds_def params_equal_def)

text \<open>A condition that no row can influence keeps all rows or none.\<close>

lemma filter_constant: "filter (\<lambda>r. c) xs = (if c then xs else [])"
  by (induction xs) auto

text \<open>For any arguments, a fetch that succeeds returns no row or the whole table.\<close>

lemma get_by_attribute_all_or_nothing:
  "get_by_attribute cls obj_id column_name db = Inr rs \<Longrightarrow>
   rs = [] \<or> map_of (relations db) (tablename cls) = Some rs"
  by (auto simp add: get_by_attribute_def fetch_where_def filter_constant split: option.splits if_splits)

text \<open>
  C6. \<^verbatim>\<open>get_by_attribute\<close> is to return, in order, exactly the rows whose named column
  equals the given value. Evaluated on the two rows of \<open>afk_db\<close>: asked for the rows
  whose \<^verbatim>\<open>reason\<close> is \<^verbatim>\<open>lunch\<close> it returns none, though the first row is one; asked
  for the rows whose \<^verbatim>\<open>reason\<close> is \<^verbatim>\<open>reason\<close> it returns both, though only the second
  is one; asked for \<^verbatim>\<open>user_id\<close> 7 it raises, the number being bound where the store
  expects text.
\<close>

theorem get_by_attribute_compares_arguments:
  "get_by_attribute AFKStatus (PStr ''lunch'') (PStr ''reason'') afk_db = Inr []
   \<and> get_by_attribute AFKStatus (PStr ''reason'') (PStr ''reason'') afk_db = Inr afk_rows
   \<and> get_by_attribute AFKStatus (PInt 7) (PStr ''user_id'') afk_db = Inl DataError"
  by code_simp





text \<open>An empty list of conditions never gets past the store.\<close>

lemma delete_empty_rejected:
  "delete cls [] db =
     Inl (case map_of (relations db) (tablename cls) of
            None \<Rightarrow> UndefinedTable
          | Some rows \<Rightarrow> WrongArgumentCount)"
  by (simp add: delete_def execute_delete_def delete_conditions_def delete_params_def bound_def
      placeholders_def split: option.splits)

text \<open>
  For any conditions, a \<^verbatim>\<open>delete\<close> that succeeds leaves the store as it was or the
  table empty.
\<close>

lemma remove_none:
  "\<not> h \<Longrightarrow> map (\<lambda>(n, rs). if n = t then (n, filter (\<lambda>r. \<not> h) rs) else (n, rs)) rel = rel"
  by (induction rel) auto

lemma remove_all:
  "h \<Longrightarrow> map_of rel t = Some rows \<Longrightarrow>
   map_of (map (\<lambda>(n, rs). if n = t then (n, filter (\<lambda>r. \<not> h) rs) else (n, rs)) rel) t = Some []"
  by (induction rel) (auto split: if_splits)

lemma delete_all_or_nothing:
  assumes run: "delete cls data_tuple_list db = Inr db'"
  shows "db' = db \<or> map_of (relations db') (tablename cls) = Some []"
proof -
  let ?h = "holds (delete_conditions data_tuple_list) (delete_params data_tuple_list)"
  from run obtain rows where rows: "map_of (relations db) (tablename cls) = Some rows"
    by (auto simp add: delete_def execute_delete_def split: option.splits)
  with run have db': "db' = db\<lparr>relations :=
      map (\<lambda>(n, rs). if n = tablename cls then (n, filter (\<lambda>r. \<not> ?h) rs) else (n, rs)) (relations db)\<rparr>"
    by (auto simp add: delete_def execute_delete_def split: if_splits)
  show ?thesis
  proof (cases ?h)
    case True
    have "map_of (relations db') (tablename cls) = Some []"
      unfolding db' using remove_all [OF True rows] by simp
    then show ?thesis by simp
  next
    case False
    have "db' = db" unfolding db' remove_none [OF False] by simp
    then show ?thesis by simp
  qed
qed

text \<open>
  C7. \<^verbatim>\<open>delete\<close> is to remove exactly the rows that match every (column, value)
  condition, and to refuse an empty list. Evaluated on \<open>afk_db\<close>: the condition
  \<^verbatim>\<open>reason = lunch\<close> removes nothing, though the first row matches; the condition
  \<^verbatim>\<open>reason = reason\<close> empties the table, though the first row does not match; the
  empty list gets as far as the store, which rejects a statement whose two
  placeholders have no arguments.
\<close>

theorem delete_compares_arguments:
  "delete AFKStatus [(PStr ''reason'', PStr ''lunch'')] afk_db = Inr afk_db
   \<and> delete AFKStatus [(PStr ''reason'', PStr ''reason'')] afk_db
       = Inr (afk_db\<lparr>relations := [(''afk_status'', [])]\<rparr>)
   \<and> delete AFKStatus [] afk_db = Inl WrongArgumentCount"
  by code_simp

section \<open>Properties of update_or_add\<close>

text \<open>
  Whatever \<^verbatim>\<open>__uniques__\<close> lists, its text in the statement opens with a bracket.
\<close>

lemma str_list_bracket: "hd (str_list xs) = CHR ''[''"
  by (simp add: str_list_def)

text \<open>
  When the last of the keys is a unique one, no key gets the closing \<^verbatim>\<open>" ;"\<close>: the
  SET clause is empty or ends in a comma and a line break.
\<close>

lemma index_less: "x \<in> set xs \<Longrightarrow> index xs x < length xs"
  by (induction xs) auto

lemma index_append: "x \<in> set xs \<Longrightarrow> index (xs @ ys) x = index xs x"
  by (induction xs) auto

lemma concat_ending:
  assumes "\<And>x. x \<in> set xs \<Longrightarrow> f x = [] \<or> (\<exists>p. f x = p @ s)"
  shows "concat (map f xs) = [] \<or> (\<exists>p. concat (map f xs) = p @ s)"
  using assms
proof (induction xs rule: rev_induct)
  case Nil
  then show ?case by simp
next
  case (snoc x xs)
  from snoc.prems [of x] have "f x = [] \<or> (\<exists>p. f x = p @ s)" by simp
  then show ?case
  proof
    assume "f x = []"
    with snoc show ?thesis by simp
  next
    assume "\<exists>p. f x = p @ s"
    then obtain p where "f x = p @ s" ..
    then have "concat (map f (xs @ [x])) = (concat (map f xs) @ p) @ s" by simp
    then show ?thesis by blast
  qed
qed

lemma update_or_add_updates_unique_last:
  assumes "k \<in> set uniqs"
  shows "update_or_add_updates uniqs (keys @ [k]) = []
         \<or> (\<exists>p. update_or_add_updates uniqs (keys @ [k]) = p @ '', \<newline>'')"
proof -
  let ?piece = "\<lambda>key. if key \<in> set uniqs then []
        else key @ '' = EXCLUDED.'' @ key @
          (if int (index (keys @ [k]) key) = int (length (keys @ [k])) - 1 then '' ;''
           else '', '' @ [CHR 0x0A])"
  have early: "?piece x = [] \<or> (\<exists>p. ?piece x = p @ '', \<newline>'')" if "x \<in> set keys" for x
  proof (cases "x \<in> set uniqs")
    case True
    then show ?thesis by simp
  next
    case False
    from that have "index (keys @ [k]) x < length keys"
      by (simp add: index_append index_less)
    with False have "?piece x = (x @ '' = EXCLUDED.'' @ x) @ '', \<newline>''" by simp
    then show ?thesis by blast
  qed
  have "update_or_add_updates uniqs (keys @ [k]) = concat (map ?piece keys)"
    using assms by (simp add: update_or_add_updates_def)
  with concat_ending [of keys ?piece "'', \<newline>''", OF early] show ?thesis by simp
qed

text \<open>
  C1. \<^verbatim>\<open>update_or_add\<close> is to insert the row when its key is new and otherwise to set
  the fields that are not \<^verbatim>\<open>None\<close> and not unique. Evaluated for the record of the
  specification's scenario, user 7 with the reason \<^verbatim>\<open>lunch\<close>: the statement it
  executes names \<^verbatim>\<open>['user_id']\<close>, the text of the Python list, as the conflict target.
  With the attributes set in the other order the SET clause ends in a comma, and with
  the reason left \<^verbatim>\<open>None\<close> it is empty. None of the three is a statement the store
  accepts.
\<close>

theorem update_or_add_statement_malformed:
  "update_or_add AFKStatus [(''user_id'', PInt 7), (''reason'', PStr ''lunch'')] =
     (''\<newline>            INSERT INTO afk_status (user_id, reason)'' @
      ''\<newline>            VALUES($1,$2) '' @
      ''\<newline>            ON CONFLICT (['' @ [CHR 0x27] @ ''user_id'' @ [CHR 0x27] @ '']) DO UPDATE'' @
      ''\<newline>            SET reason = EXCLUDED.reason ;'' @
      ''\<newline>            '', [PInt 7, PStr ''lunch''])
   \<and> update_or_add_updates (uniques AFKStatus)
         (update_or_add_keys [(''reason'', PStr ''lunch''), (''user_id'', PInt 7)])
       = ''reason = EXCLUDED.reason, \<newline>''
   \<and> update_or_add_updates (uniques AFKStatus)
         (update_or_add_keys [(''user_id'', PInt 7), (''reason'', PNone)]) = []"
  by code_simp

section \<open>Properties of db_migrate\<close>

text \<open>The loop visits the versions from \<open>a\<close> up to, not including, \<open>b\<close>.\<close>

lemma py_range_set: "i \<in> set (py_range a b) \<longleftrightarrow> a \<le> i \<and> i < b"
  by (auto simp add: py_range_def)

text \<open>
  \<^verbatim>\<open>db_migrate\<close> itself writes no row of \<^verbatim>\<open>versions\<close>: when no hook of the registered
  classes changes that table, a run that ends leaves it as it was, created empty if
  it did not exist.
\<close>

lemma run_versions_keeps_versions_table:
  assumes steps: "\<And>i step d d'. map_of vs i = Some step \<Longrightarrow> step d = Inr d' \<Longrightarrow>
                    versions_table d' = versions_table d"
  shows "run_versions vs todo db = Inr db' \<Longrightarrow> versions_table db' = versions_table db"
proof (induction todo arbitrary: db)
  case Nil
  then show ?case by simp
next
  case (Cons i rest)
  from Cons.prems obtain step d where step: "map_of vs i = Some step" "step db = Inr d"
    and rest: "run_versions vs rest d = Inr db'"
    by (auto split: option.splits sum.splits)
  from Cons.IH [OF rest] steps [OF step] show ?case by simp
qed

lemma migrate_keeps_versions_table:
  assumes steps: "\<And>vs i step d d'. versions cls = Some vs \<Longrightarrow> map_of vs i = Some step \<Longrightarrow>
                    step d = Inr d' \<Longrightarrow> versions_table d' = versions_table d"
    and create: "\<And>d d'. initial_create cls d = Inr d' \<Longrightarrow> versions_table d' = versions_table d"
    and legacy: "\<And>d d'. initial_migrate cls d = Inr d' \<Longrightarrow> versions_table d' = versions_table d"
    and run: "migrate cls db = Inr db'"
  shows "versions_table db' = versions_table db"
proof (cases "versions cls")
  case None
  with run create legacy show ?thesis
    by (auto simp add: migrate_def split: if_splits sum.splits option.splits)
next
  case (Some vs)
  with run create legacy run_versions_keeps_versions_table [of vs, OF steps [OF Some]]
  show ?thesis
    by (auto simp add: migrate_def split: if_splits sum.splits option.splits)
qed

lemma migrate_all_keeps_versions_table:
  assumes steps: "\<And>cls vs i step d d'. cls \<in> set subclasses \<Longrightarrow> versions cls = Some vs \<Longrightarrow>
                    map_of vs i = Some step \<Longrightarrow> step d = Inr d' \<Longrightarrow>
                    versions_table d' = versions_table d"
    and create: "\<And>cls d d'. cls \<in> set subclasses \<Longrightarrow> initial_create cls d = Inr d' \<Longrightarrow>
                    versions_table d' = versions_table d"
    and legacy: "\<And>cls d d'. cls \<in> set subclasses \<Longrightarrow> initial_migrate cls d = Inr d' \<Longrightarrow>
                    versions_table d' = versions_table d"
    and run: "migrate_all subclasses db = Inr db'"
  shows "versions_table db' = versions_table db"
  using assms
proof (induction subclasses arbitrary: db)
  case Nil
  then show ?case by simp
next
  case (Cons cls rest)
  from Cons.prems(4) obtain d where first: "migrate cls db = Inr d"
    and others: "migrate_all rest d = Inr db'"
    by (auto split: sum.splits)
  have here: "cls \<in> set (cls # rest)" by simp
  have there: "c \<in> set (cls # rest)" if "c \<in> set rest" for c using that by simp
  have "versions_table d = versions_table db"
    by (rule migrate_keeps_versions_table
          [OF Cons.prems(1) [OF here] Cons.prems(2) [OF here] Cons.prems(3) [OF here] first])
  moreover have "versions_table db' = versions_table d"
    by (rule Cons.IH
          [OF Cons.prems(1) [OF there] Cons.prems(2) [OF there] Cons.prems(3) [OF there] others])
  ultimately show ?case by simp
qed

lemma db_migrate_writes_no_version:
  assumes "\<And>cls vs i step d d'. cls \<in> set subclasses \<Longrightarrow> versions cls = Some vs \<Longrightarrow>
             map_of vs i = Some step \<Longrightarrow> step d = Inr d' \<Longrightarrow>
             versions_table d' = versions_table d"
    and "\<And>cls d d'. cls \<in> set subclasses \<Longrightarrow> initial_create cls d = Inr d' \<Longrightarrow>
             versions_table d' = versions_table d"
    and "\<And>cls d d'. cls \<in> set subclasses \<Longrightarrow> initial_migrate cls d = Inr d' \<Longrightarrow>
             versions_table d' = versions_table d"
    and "db_migrate subclasses db = Inr db'"
  shows "versions_table db' = (case versions_table db of None \<Rightarrow> Some [] | Some rows \<Rightarrow> Some rows)"
proof -
  from assms(4) have "migrate_all subclasses (create_versions_table db) = Inr db'"
    by (simp add: db_migrate_def)
  from migrate_all_keeps_versions_table [OF assms(1-3) this]
  show ?thesis by (simp add: create_versions_table_def split: option.splits)
qed

text \<open>
  C2. From stored version 2 with five steps defined, the runner is to apply the steps
  3, 4 and 5 and to leave the stored version at 5. Evaluated there, for any five steps
  and any rows: \<^verbatim>\<open>range(2 + 1, 5 - 2)\<close> is empty, so no step is called, and the store,
  the stored version 2 included, is as it was.
\<close>

theorem db_migrate_runs_no_pending_step:
  "db_migrate
     [\<lparr>tablename = ''afk_status'', uniques = [''user_id''],
       versions = Some [(1, s1), (2, s2), (3, s3), (4, s4), (5, s5)],
       initial_create = c, initial_migrate = m\<rparr>]
     \<lparr>relations = [(''afk_status'', rows)], versions_table = Some [(''afk_status'', 2)]\<rparr>
   = Inr \<lparr>relations = [(''afk_status'', rows)], versions_table = Some [(''afk_status'', 2)]\<rparr>
   \<and> py_range (2 + 1) (5 - 2) = []"
  by (simp add: db_migrate_def create_versions_table_def migrate_def table_exists_def
      fetch_version_def py_range_def)

text \<open>A class that keeps the inherited \<^verbatim>\<open>initial_create\<close> stops the run on a store without its table.\<close>

lemma db_migrate_inherited_initial_create:
  "db_migrate [cls\<lparr>initial_create := DatabaseTable_initial_create\<rparr>]
     \<lparr>relations = [], versions_table = v\<rparr> = Inl NotImplementedError"
  by (simp add: db_migrate_def create_versions_table_def migrate_def table_exists_def
      DatabaseTable_initial_create_def split: option.splits)

text \<open>
  C8. For a registered table that the store does not have, one run is to create it and
  to record its baseline version, and a second run is to change nothing. Evaluated
  for \<open>AFKStatus\<close> on the empty store: the run creates \<^verbatim>\<open>versions\<close> and
  \<^verbatim>\<open>afk_status\<close> and writes no row into \<^verbatim>\<open>versions\<close>; the second run leaves that
  store as it is; and \<^verbatim>\<open>set_initial_version\<close>, the one writer of such a row, raises
  when called on \<^verbatim>\<open>ConfigCache\<close>, where it is defined.
\<close>

theorem db_migrate_records_no_version:
  "db_migrate [AFKStatus] \<lparr>relations = [], versions_table = None\<rparr>
     = Inr \<lparr>relations = [(''afk_status'', [])], versions_table = Some []\<rparr>
   \<and> db_migrate [AFKStatus] \<lparr>relations = [(''afk_status'', [])], versions_table = Some []\<rparr>
     = Inr \<lparr>relations = [(''afk_status'', [])], versions_table = Some []\<rparr>
   \<and> set_initial_version None \<lparr>relations = [(''afk_status'', [])], versions_table = Some []\<rparr>
     = Inl AttributeError"
  by (simp add: db_migrate_def create_versions_table_def migrate_def table_exists_def
      fetch_version_def AFKStatus_def create_table_def DatabaseTable_initial_migrate_def
      set_initial_version_def)

section \<open>Properties of ConfigCache\<close>

text \<open>With the key in the cache, \<^verbatim>\<open>query_one\<close> returns \<^verbatim>\<open>None\<close> and touches nothing.\<close>

lemma query_one_hit:
  "cache self (PTuple args) = Some c \<Longrightarrow>
   query_one self args obj_id column_name db = Inr (None, self)"
  by (simp add: query_one_def)

text \<open>
  \<^verbatim>\<open>_hash_dict\<close> does not depend on the order in which the dictionary was filled.
\<close>

lemma hash_dict_order_independent:
  assumes "distinct (map fst d1)" and "distinct (map fst d2)" and "map_of d1 = map_of d2"
  shows "hash_dict d1 = hash_dict d2"
proof -
  have "set (map fst d1) = dom (map_of d1)" by (simp add: dom_map_of_conv_image_fst)
  also have "\<dots> = dom (map_of d2)" using assms(3) by simp
  also have "\<dots> = set (map fst d2)" by (simp add: dom_map_of_conv_image_fst)
  finally have same: "set (map fst d1) = set (map fst d2)" .
  have "sort (map fst d1) = sort (map fst d2)"
  proof (rule sorted_distinct_set_unique)
    show "set (sort (map fst d1)) = set (sort (map fst d2))" using same by simp
  qed (use assms in simp_all)
  then show ?thesis using assms(3) by (simp add: hash_dict_def)
qed

text \<open>
  C3. With the key in the cache, \<^verbatim>\<open>query_one\<close> is to return the cached value.
  Evaluated on a cache that holds the record \<open>r\<close> under the key \<^verbatim>\<open>(1,)\<close>: the call
  with that key returns \<^verbatim>\<open>None\<close>, not \<open>r\<close>. \<^verbatim>\<open>query_all\<close> on a cache that holds a
  list under the key returns the list.
\<close>

theorem query_one_hit_returns_None:
  "query_one \<lparr>cache = [PTuple [PInt 1] \<mapsto> CachedRecord r], table = AFKStatus\<rparr>
       [PInt 1] obj_id column_name db
     = Inr (None, \<lparr>cache = [PTuple [PInt 1] \<mapsto> CachedRecord r], table = AFKStatus\<rparr>)
   \<and> query_all \<lparr>cache = [PTuple [PInt 1] \<mapsto> CachedList rs], table = AFKStatus\<rparr> [PInt 1] db
     = Inr (CachedList rs, \<lparr>cache = [PTuple [PInt 1] \<mapsto> CachedList rs], table = AFKStatus\<rparr>)"
  by (simp add: query_one_def query_all_def)

text \<open>
  \<^verbatim>\<open>invalidate_entry\<close> removes the entry under \<^verbatim>\<open>_hash_dict(kwargs)\<close> and no other.
\<close>

lemma invalidate_entry_cache:
  "cache (invalidate_entry self kwargs) = (cache self)(hash_dict kwargs := None)"
  "table (invalidate_entry self kwargs) = table self"
  by (auto simp add: invalidate_entry_def Let_def split: option.splits)

text \<open>
  C4. After \<^verbatim>\<open>invalidate_entry\<close> the next query with the same parameters is to reach
  the store. Evaluated: \<^verbatim>\<open>query_all(7)\<close> on an empty cache stores the two rows under
  \<^verbatim>\<open>(7,)\<close>; \<^verbatim>\<open>invalidate_entry(user_id=7)\<close> looks for \<^verbatim>\<open>(('user_id', 7),)\<close> and
  leaves the cache as it is; \<^verbatim>\<open>query_all(7)\<close> then returns the two cached rows and
  \<^verbatim>\<open>query_one(7, ...)\<close> returns \<^verbatim>\<open>None\<close>, for any store \<open>db\<close>, which neither
  call asks. The same with both methods given the keywords \<^verbatim>\<open>obj_id\<close> and
  \<^verbatim>\<open>column_name\<close>: the query keeps its entry under \<^verbatim>\<open>()\<close>, the invalidation
  removes nothing, and the next query is a hit.
\<close>

theorem invalidate_entry_leaves_query_entry:
  "query_all \<lparr>cache = Map.empty, table = AFKStatus\<rparr> [PInt 7] afk_db
     = Inr (CachedList afk_rows, \<lparr>cache = [PTuple [PInt 7] \<mapsto> CachedList afk_rows], table = AFKStatus\<rparr>)
   \<and> invalidate_entry \<lparr>cache = [PTuple [PInt 7] \<mapsto> CachedList afk_rows], table = AFKStatus\<rparr>
        [(''user_id'', PInt 7)]
     = \<lparr>cache = [PTuple [PInt 7] \<mapsto> CachedList afk_rows], table = AFKStatus\<rparr>
   \<and> query_all
        (invalidate_entry \<lparr>cache = [PTuple [PInt 7] \<mapsto> CachedList afk_rows], table = AFKStatus\<rparr>
           [(''user_id'', PInt 7)])
        [PInt 7] db
     = Inr (CachedList afk_rows, \<lparr>cache = [PTuple [PInt 7] \<mapsto> CachedList afk_rows], table = AFKStatus\<rparr>)
   \<and> query_one
        (invalidate_entry \<lparr>cache = [PTuple [PInt 7] \<mapsto> CachedList afk_rows], table = AFKStatus\<rparr>
           [(''user_id'', PInt 7)])
        [PInt 7] obj_id column_name db
     = Inr (None, \<lparr>cache = [PTuple [PInt 7] \<mapsto> CachedList afk_rows], table = AFKStatus\<rparr>)
   \<and> call_query_one
        (invalidate_entry \<lparr>cache = [PTuple [] \<mapsto> CachedRecord r], table = AFKStatus\<rparr>
           [(''obj_id'', PStr ''7''), (''column_name'', PStr ''user_id'')])
        [] [(''obj_id'', PStr ''7''), (''column_name'', PStr ''user_id'')] db
     = Inr (None, \<lparr>cache = [PTuple [] \<mapsto> CachedRecord r], table = AFKStatus\<rparr>)"
proof -
  have first: "get_all AFKStatus afk_db = Inr afk_rows"
    by code_simp
  have positional: "hash_dict [(''user_id'', PInt 7)] = PTuple [PTuple [PStr ''user_id'', PInt 7]]"
    by code_simp
  have by_keyword: "hash_dict [(''obj_id'', PStr ''7''), (''column_name'', PStr ''user_id'')]
      = PTuple [PTuple [PStr ''column_name'', PStr ''user_id''], PTuple [PStr ''obj_id'', PStr ''7'']]"
    by code_simp
  show ?thesis
    by (simp add: first positional by_keyword query_all_def query_one_def call_query_one_def
        invalidate_entry_def)
qed

text \<open>
  C5. Two queries whose parameters are equal as maps are to meet in one cache entry,
  as \<^verbatim>\<open>queryOne(a=1,b=2)\<close> and \<^verbatim>\<open>queryOne(b=2,a=1)\<close>. Evaluated: either call raises
  \<^verbatim>\<open>TypeError\<close>, \<^verbatim>\<open>query_one\<close> taking no such keywords; and with 1 and 2 passed by
  position, the entry the first query stores under \<^verbatim>\<open>(1, 2)\<close> is not found by the
  second, which fetches again and stores its own under \<^verbatim>\<open>(2, 1)\<close>. Only
  \<^verbatim>\<open>_hash_dict\<close>, which the queries do not call, gives both orders one key.
\<close>

theorem query_one_key_depends_on_order:
  "call_query_one self [] [(''a'', PInt 1), (''b'', PInt 2)] db = Inl TypeError
   \<and> call_query_one self [] [(''b'', PInt 2), (''a'', PInt 1)] db = Inl TypeError
   \<and> query_one \<lparr>cache = Map.empty, table = AFKStatus\<rparr>
        [PInt 1, PInt 2] (PStr ''reason'') (PStr ''reason'') afk_db
       = Inr (Some (hd afk_rows),
              \<lparr>cache = [PTuple [PInt 1, PInt 2] \<mapsto> CachedRecord (hd afk_rows)], table = AFKStatus\<rparr>)
   \<and> query_one \<lparr>cache = [PTuple [PInt 1, PInt 2] \<mapsto> CachedRecord (hd afk_rows)], table = AFKStatus\<rparr>
        [PInt 2, PInt 1] (PStr ''reason'') (PStr ''reason'') afk_db
       = Inr (Some (hd afk_rows),
              \<lparr>cache = [PTuple [PInt 1, PInt 2] \<mapsto> CachedRecord (hd afk_rows),
                        PTuple [PInt 2, PInt 1] \<mapsto> CachedRecord (hd afk_rows)],
               table = AFKStatus\<rparr>)
   \<and> hash_dict [(''a'', PInt 1), (''b'', PInt 2)] = hash_dict [(''b'', PInt 2), (''a'', PInt 1)]"
proof -
  have "hash_dict [(''a'', PInt 1), (''b'', PInt 2)] = hash_dict [(''b'', PInt 2), (''a'', PInt 1)]"
    by code_simp
  then show ?thesis
    by (simp add: call_query_one_def query_one_def get_by_attribute_rows AFKStatus_def afk_db_def
        afk_rows_def)
qed

section \<open>Properties of the bot\<close>

text \<open>
  The handler answers a failed check that is not an \<^verbatim>\<open>InvalidContext\<close> with the
  traceback text, and a missing argument with the usage notice.
\<close>

lemma on_command_error_replies:
  "on_command_error ctx CheckFailure = ([TracebackReply], Some TypeError)"
  "on_command_error ctx MissingRequiredArgument = ([UserInputReply], None)"
  by (simp_all add: on_command_error_def isinstance_def)

text \<open>
  C10. A message whose author is a bot account runs no command and gets no reply: the
  global check raises \<^verbatim>\<open>InvalidContext\<close> for it, the handler sends nothing for
  \<^verbatim>\<open>InvalidContext\<close> and nothing for \<^verbatim>\<open>CommandNotFound\<close>, and so an invocation, with
  or without a command of that name, ends handled with no message sent.
\<close>

theorem bot_author_is_ignored:
  "author_bot ctx \<Longrightarrow>
     global_checks ctx retry_after = Inl InvalidContext
   \<and> invoke ctx command_found retry_after = Handled ([], None)
   \<and> on_command_error ctx InvalidContext = ([], None)
   \<and> on_command_error ctx CommandNotFound = ([], None)"
  by (simp add: global_checks_def invoke_def on_command_error_def isinstance_def)

theorem bot_author_is_ignored_witness:
  "author_bot \<lparr>author_bot = True\<rparr>
   \<and> global_checks \<lparr>author_bot = True\<rparr> None = Inl InvalidContext
   \<and> invoke \<lparr>author_bot = True\<rparr> True None = Handled ([], None)
   \<and> invoke \<lparr>author_bot = True\<rparr> False None = Handled ([], None)"
  using bot_author_is_ignored [of "\<lparr>author_bot = True\<rparr>" None True]
        bot_author_is_ignored [of "\<lparr>author_bot = True\<rparr>" None False]
  by simp

end
